theory Spec2Isabelle
  imports Main "HOL-Library.Word" "HOL-Library.Sublist"
begin

unbundle bit_operations_syntax

section \<open>The metrics exporter of gke-vpa-recommendations\<close>

text \<open>
  A shallow embedding of \<^verbatim>\<open>metrics-exporter/main.py\<close>: the functions
  \<^verbatim>\<open>get_gke_metrics\<close>, \<^verbatim>\<open>write_to_bigquery\<close>, \<^verbatim>\<open>run_pipeline\<close>,
  \<^verbatim>\<open>get_namespaces\<close> and the block under \<^verbatim>\<open>__main__\<close>.

  The two services the module talks to (Cloud Monitoring and BigQuery) are parameters of the
  model, and so is the module \<^verbatim>\<open>config\<close>, which the program imports. Exceptions are values
  of a sum type, logging and the calls made to the services are recorded in an explicit state,
  and the coroutines, which the program only ever runs one after the other, are ordinary
  state-passing functions.
\<close>

subsection \<open>Python values: strings, numbers, dates\<close>

text \<open>\<^verbatim>\<open>sub in s\<close> on strings: \<^verbatim>\<open>sub\<close> occurs in \<^verbatim>\<open>s\<close> as a contiguous, case-sensitive run.\<close>

primrec py_in :: "string \<Rightarrow> string \<Rightarrow> bool" where
  "py_in sub [] = (sub = [])"
| "py_in sub (c # cs) = (prefix sub (c # cs) \<or> py_in sub cs)"

text \<open>\<^verbatim>\<open>str(n)\<close> for a natural number, and zero padding to a width as \<^verbatim>\<open>%02d\<close> does.\<close>

definition digit_char :: "nat \<Rightarrow> char" where
  "digit_char d = ''0123456789'' ! (d mod 10)"

fun str_nat :: "nat \<Rightarrow> string" where
  "str_nat n = (if n < 10 then [digit_char n] else str_nat (n div 10) @ [digit_char (n mod 10)])"

declare str_nat.simps [simp del]

definition zfill :: "nat \<Rightarrow> string \<Rightarrow> string" where
  "zfill w s = replicate (w - length s) (CHR ''0'') @ s"

text \<open>
  A \<^verbatim>\<open>datetime\<close> value, and the two formats the program renders it with:
  \<^verbatim>\<open>'%Y-%m-%d %H:%M:%S'\<close> and \<^verbatim>\<open>'%Y-%m-%d %H:%M:%S.%f'\<close>. The directive \<^verbatim>\<open>%f\<close> is the
  microsecond, six digits wide.
\<close>

record datetime =
  year :: nat
  month :: nat
  day :: nat
  hour :: nat
  minute :: nat
  second :: nat
  microsecond :: nat

definition strftime_seconds :: "datetime \<Rightarrow> string" where
  "strftime_seconds t =
     zfill 4 (str_nat (year t)) @ ''-'' @ zfill 2 (str_nat (month t)) @ ''-'' @
     zfill 2 (str_nat (day t)) @ '' '' @ zfill 2 (str_nat (hour t)) @ '':'' @
     zfill 2 (str_nat (minute t)) @ '':'' @ zfill 2 (str_nat (second t))"

definition strftime_micros :: "datetime \<Rightarrow> string" where
  "strftime_micros t = strftime_seconds t @ ''.'' @ zfill 6 (str_nat (microsecond t))"

text \<open>
  A Python \<^verbatim>\<open>float\<close> is an IEEE-754 binary64 value, kept here as its 64 bits (sign, eleven
  bits of exponent, 52 bits of fraction). It is falsy exactly when it is \<open>+0.0\<close> or \<open>-0.0\<close>,
  that is when all bits but the sign are clear; a NaN is truthy. \<^verbatim>\<open>float(i)\<close> of an integer
  rounds to the nearest representable value, ties to even.
\<close>

type_synonym double = "64 word"

definition double_truthy :: "double \<Rightarrow> bool" where
  "double_truthy d = (d AND 0x7FFFFFFFFFFFFFFF \<noteq> 0)"

fun bit_length :: "nat \<Rightarrow> nat" where
  "bit_length n = (if n = 0 then 0 else Suc (bit_length (n div 2)))"

declare bit_length.simps [simp del]

definition round_half_even :: "nat \<Rightarrow> nat \<Rightarrow> nat" where
  "round_half_even m s =
     (let q = m div 2 ^ s; r = m mod 2 ^ s; h = 2 ^ (s - 1)
      in if r > h \<or> (r = h \<and> odd q) then q + 1 else q)"

definition py_float :: "int \<Rightarrow> double" where
  "py_float i =
     (if i = 0 then 0
      else let m = nat \<bar>i\<bar>;
               e = bit_length m - 1;
               q = (if e \<le> 52 then m * 2 ^ (52 - e) else round_half_even m (e - 52));
               bits = (e + 1023) * 2 ^ 52 + (q - 2 ^ 52)
           in (if i < 0 then 2 ^ 63 else 0) + word_of_nat bits)"

text \<open>\<^verbatim>\<open>x or y\<close> on floats: \<^verbatim>\<open>x\<close> when it is truthy, else \<^verbatim>\<open>y\<close>.\<close>

definition py_or :: "double \<Rightarrow> double \<Rightarrow> double" where
  "py_or x y = (if double_truthy x then x else y)"

subsection \<open>Exceptions\<close>

text \<open>
  The exceptions that reach the handlers of the program, all of them subclasses of
  \<^verbatim>\<open>Exception\<close>: the client library's \<^verbatim>\<open>GoogleAPICallError\<close>, the \<^verbatim>\<open>KeyError\<close> of a subscript
  whose key is missing, and any other \<^verbatim>\<open>Exception\<close>. The payload is the text \<^verbatim>\<open>str(error)\<close>
  gives (for a \<^verbatim>\<open>KeyError\<close>, the key). Signals that are not subclasses of \<^verbatim>\<open>Exception\<close>
  (an interrupt from the keyboard, the exit of the interpreter) are not modelled.
\<close>

datatype error = GoogleAPICallError string | KeyError string | Exception string

fun str_error :: "error \<Rightarrow> string" where
  "str_error (GoogleAPICallError m) = m"
| "str_error (KeyError k) = [CHR 0x27] @ k @ [CHR 0x27]"
| "str_error (Exception m) = m"

text \<open>
  \<^verbatim>\<open>d[k]\<close>: the value stored under the key, or \<^verbatim>\<open>KeyError\<close>. The label containers of a
  series are read with this subscript; a label that is missing ends the building of the row
  with an exception, which the handlers of the caller catch like any other.
\<close>

definition getitem :: "(string \<rightharpoonup> 'v) \<Rightarrow> string \<Rightarrow> error + 'v" where
  "getitem d k = (case d k of None \<Rightarrow> Inl (KeyError k) | Some v \<Rightarrow> Inr v)"

text \<open>Sequencing of two computations, the first of which may raise.\<close>

definition and_then :: "error + 'a \<Rightarrow> ('a \<Rightarrow> error + 'b) \<Rightarrow> error + 'b" where
  "and_then r f = (case r of Inl e \<Rightarrow> Inl e | Inr v \<Rightarrow> f v)"

subsection \<open>The data of the two services\<close>

text \<open>
  A time series as \<^verbatim>\<open>list_time_series\<close> yields it. Of each object only the attributes the
  program reads are kept: \<^verbatim>\<open>result.resource.labels\<close>, \<^verbatim>\<open>result.metadata.system_labels.fields\<close>
  (whose values are read through \<^verbatim>\<open>.string_value\<close>), \<^verbatim>\<open>result.metric.labels\<close> and
  \<^verbatim>\<open>result.points\<close>, and of a point \<^verbatim>\<open>point.interval.start_time\<close>,
  \<^verbatim>\<open>point.value.double_value\<close> and \<^verbatim>\<open>point.value.int64_value\<close>. A field of a typed value
  that is not set reads as zero.
\<close>

record typed_value =
  double_value :: double
  int64_value :: "64 word"

record point_interval =
  start_time :: datetime

record point =
  interval :: point_interval
  point_value :: typed_value

record pb_value =
  string_value :: string

record time_series =
  resource_labels :: "string \<rightharpoonup> string"
  system_labels_fields :: "string \<rightharpoonup> pb_value"
  metric_labels :: "string \<rightharpoonup> string"
  points :: "point list"

text \<open>The row the program builds for one series (a dictionary with these ten keys).\<close>

record point_entry =
  metric_timestamp :: string
  metric_value :: double

record row =
  run_date :: string
  metric_name :: string
  project_id :: string
  location :: string
  cluster_name :: string
  namespace_name :: string
  controller_name :: string
  controller_type :: string
  container_name :: string
  points_array :: "point_entry list"

text \<open>
  A query descriptor (a value of \<^verbatim>\<open>config.MQL_QUERY\<close>), the module \<^verbatim>\<open>config\<close>, and the values
  the module computes once when it is loaded (\<^verbatim>\<open>run_date\<close>, \<^verbatim>\<open>seconds\<close>, \<^verbatim>\<open>nanos\<close>).
\<close>

record query =
  metric :: string
  window :: int
  seconds_between_points :: int
  per_series_aligner :: string
  cross_series_reducer :: string
  columns :: "string list"

record config =
  PROJECT_ID :: string
  TABLE_ID :: string
  MQL_QUERY :: "(string \<times> query) list"
  METRIC_WINDOW :: int
  namespace_filter :: string

record module_globals =
  g_run_date :: datetime
  g_seconds :: int
  g_nanos :: int

definition project_name :: "config \<Rightarrow> string" where
  "project_name cfg = ''projects/'' @ PROJECT_ID cfg"

text \<open>The request of \<^verbatim>\<open>list_time_series\<close>.\<close>

record pb_timestamp =
  seconds :: int
  nanos :: int

record time_interval =
  end_time :: pb_timestamp
  interval_start_time :: pb_timestamp

record aggregation =
  alignment_period :: int
  agg_per_series_aligner :: string
  agg_cross_series_reducer :: string
  group_by_fields :: "string list"

record request =
  req_name :: string
  req_filter :: string
  req_interval :: time_interval
  req_view :: string
  req_aggregation :: aggregation

text \<open>
  What a service may do. \<^verbatim>\<open>list_time_series\<close> raises, or returns a pager; iterating the pager
  yields series and may raise at any point, after which nothing more is read from it (a pager
  is a finite list of such events: one that never ends would keep the program in its loop).
  \<^verbatim>\<open>insert_rows_json\<close> raises, or returns the list of the errors of the rows it rejected (each
  error kept as the text it prints as). The answer may depend on the number of calls made before.
\<close>

datatype pager_event = Yield time_series | Iter_Raises error

datatype ts_response = Call_Raises error | Pager "pager_event list"

datatype insert_response = Insert_Raises error | Insert_Returns "string list"

record backend =
  list_time_series :: "nat \<Rightarrow> request \<Rightarrow> ts_response"
  insert_rows_json :: "nat \<Rightarrow> string \<Rightarrow> row list \<Rightarrow> insert_response"

text \<open>The observable state: the log, and the calls made to the two services, oldest first.\<close>

datatype level = INFO | ERROR

record world =
  log_lines :: "(level \<times> string) list"
  ts_calls :: "request list"
  bq_calls :: "(string \<times> row list) list"

definition logging :: "level \<Rightarrow> string \<Rightarrow> world \<Rightarrow> world" where
  "logging lv msg w = w\<lparr>log_lines := log_lines w @ [(lv, msg)]\<rparr>"

subsection \<open>get_gke_metrics\<close>

text \<open>The three-way choice of the controller's name and type and of the container's name.\<close>

definition controller_identity :: "string \<Rightarrow> time_series \<Rightarrow> error + (string \<times> string \<times> string)" where
  "controller_identity metric_name' result =
     (let label = resource_labels result;
          metadata = system_labels_fields result;
          metric_label = metric_labels result
      in if py_in ''hpa'' metric_name' then
           and_then (getitem metric_label ''targetref_name'') (\<lambda>cn.
           and_then (getitem metric_label ''targetref_kind'') (\<lambda>ct.
           and_then (getitem metric_label ''container_name'') (\<lambda>co.
           Inr (cn, ct, co))))
         else if py_in ''vpa'' metric_name' then
           and_then (getitem label ''controller_name'') (\<lambda>cn.
           and_then (getitem label ''controller_kind'') (\<lambda>ct.
           and_then (getitem metric_label ''container_name'') (\<lambda>co.
           Inr (cn, ct, co))))
         else
           and_then (getitem metadata ''top_level_controller_name'') (\<lambda>cn.
           and_then (getitem metadata ''top_level_controller_type'') (\<lambda>ct.
           and_then (getitem label ''container_name'') (\<lambda>co.
           Inr (string_value cn, string_value ct, co)))))"

text \<open>One entry of \<^verbatim>\<open>points_array\<close>, and the body of the loop over the series.\<close>

definition point_dict :: "point \<Rightarrow> point_entry" where
  "point_dict p =
     \<lparr>metric_timestamp = strftime_micros (start_time (interval p)),
      metric_value = py_or (double_value (point_value p))
                           (py_float (sint (int64_value (point_value p))))\<rparr>"

definition build_row :: "module_globals \<Rightarrow> string \<Rightarrow> time_series \<Rightarrow> error + row" where
  "build_row g metric_name' result =
     and_then (controller_identity metric_name' result) (\<lambda>(cn, ct, co).
     and_then (getitem (resource_labels result) ''project_id'') (\<lambda>pid.
     and_then (getitem (resource_labels result) ''location'') (\<lambda>loc.
     and_then (getitem (resource_labels result) ''cluster_name'') (\<lambda>cl.
     and_then (getitem (resource_labels result) ''namespace_name'') (\<lambda>ns.
     Inr \<lparr>run_date = strftime_seconds (g_run_date g),
          metric_name = metric_name',
          project_id = pid,
          location = loc,
          cluster_name = cl,
          namespace_name = ns,
          controller_name = cn,
          controller_type = ct,
          container_name = co,
          points_array = map point_dict (points result)\<rparr>)))))"

text \<open>
  The loop \<^verbatim>\<open>for result in results\<close>: the rows built so far are in \<^verbatim>\<open>rows\<close>, which lives
  outside the \<^verbatim>\<open>try\<close> block; the loop ends with the exception that stopped it, if any.
\<close>

fun build_rows :: "module_globals \<Rightarrow> string \<Rightarrow> pager_event list \<Rightarrow> row list \<Rightarrow> error option \<times> row list" where
  "build_rows g metric_name' [] rows = (None, rows)"
| "build_rows g metric_name' (Iter_Raises e # rest) rows = (Some e, rows)"
| "build_rows g metric_name' (Yield result # rest) rows =
     (case build_row g metric_name' result of
        Inl e \<Rightarrow> (Some e, rows)
      | Inr r \<Rightarrow> build_rows g metric_name' rest (rows @ [r]))"

definition metrics_request :: "config \<Rightarrow> module_globals \<Rightarrow> query \<Rightarrow> string \<Rightarrow> request" where
  "metrics_request cfg g q namespace =
     \<lparr>req_name = project_name cfg,
      req_filter = ''metric.type = \"'' @ metric q @ ''\" AND resource.label.namespace_name = '' @ namespace,
      req_interval =
        \<lparr>end_time = \<lparr>seconds = g_seconds g, nanos = g_nanos g\<rparr>,
         interval_start_time = \<lparr>seconds = g_seconds g - window q, nanos = g_nanos g\<rparr>\<rparr>,
      req_view = ''FULL'',
      req_aggregation =
        \<lparr>alignment_period = seconds_between_points q,
         agg_per_series_aligner = per_series_aligner q,
         agg_cross_series_reducer = cross_series_reducer q,
         group_by_fields = columns q\<rparr>\<rparr>"

text \<open>
  The two \<^verbatim>\<open>except\<close> clauses of \<^verbatim>\<open>get_gke_metrics\<close>, tried in order; after either, control
  reaches \<^verbatim>\<open>return rows\<close>. The function proper starts at the call of \<^verbatim>\<open>list_time_series\<close>:
  the construction of the client and of the interval and aggregation objects before the
  \<^verbatim>\<open>try\<close> is taken to succeed, and what it builds is the request.
\<close>

definition metrics_except :: "error \<Rightarrow> row list \<Rightarrow> world \<Rightarrow> (error + row list) \<times> world" where
  "metrics_except e rows w =
     (case e of
        GoogleAPICallError m \<Rightarrow> (Inr rows, logging INFO (''Google API call error: '' @ str_error e) w)
      | _ \<Rightarrow> (Inr rows, logging INFO (''Unexpected error: '' @ str_error e) w))"

definition get_gke_metrics ::
  "backend \<Rightarrow> config \<Rightarrow> module_globals \<Rightarrow> string \<Rightarrow> query \<Rightarrow> string \<Rightarrow> world \<Rightarrow> (error + row list) \<times> world" where
  "get_gke_metrics be cfg g metric_name' q namespace w =
     (let req = metrics_request cfg g q namespace;
          w1 = w\<lparr>ts_calls := ts_calls w @ [req]\<rparr>
      in case list_time_series be (length (ts_calls w)) req of
           Call_Raises e \<Rightarrow> metrics_except e [] w1
         | Pager results \<Rightarrow>
             (let w2 = logging INFO ''Building Row'' w1
              in case build_rows g metric_name' results [] of
                   (None, rows) \<Rightarrow> (Inr rows, w2)
                 | (Some e, rows) \<Rightarrow> metrics_except e rows w2))"

subsection \<open>write_to_bigquery\<close>

text \<open>
  \<^verbatim>\<open>"{}".format(errors)\<close> prints a list as its items, separated by a comma and a space, between
  square brackets.
\<close>

fun join_comma :: "string list \<Rightarrow> string" where
  "join_comma [] = []"
| "join_comma [x] = x"
| "join_comma (x # y # ys) = x @ '', '' @ join_comma (y # ys)"

definition str_list :: "string list \<Rightarrow> string" where
  "str_list xs = ''['' @ join_comma xs @ '']''"

definition write_to_bigquery :: "backend \<Rightarrow> config \<Rightarrow> row list \<Rightarrow> world \<Rightarrow> (error + unit) \<times> world" where
  "write_to_bigquery be cfg rows_to_insert w =
     (let w1 = w\<lparr>bq_calls := bq_calls w @ [(TABLE_ID cfg, rows_to_insert)]\<rparr>
      in case insert_rows_json be (length (bq_calls w)) (TABLE_ID cfg) rows_to_insert of
           Insert_Raises e \<Rightarrow> (Inl e, w1)
         | Insert_Returns errors \<Rightarrow>
             if errors = [] then
               (Inr (), logging INFO (''Successfully wrote '' @ str_nat (length rows_to_insert) @
                                      '' rows to BigQuery table '' @ TABLE_ID cfg @ ''.'') w1)
             else
               (let error_message = ''Encountered errors while inserting rows: '' @ str_list errors
                in (Inl (Exception error_message), logging ERROR error_message w1)))"

subsection \<open>run_pipeline\<close>

text \<open>
  The loop over \<^verbatim>\<open>config.MQL_QUERY.items()\<close>, in the order of the dictionary. Neither call is
  inside a \<^verbatim>\<open>try\<close>: an exception of \<^verbatim>\<open>write_to_bigquery\<close> ends the loop and leaves
  \<^verbatim>\<open>run_pipeline\<close>.
\<close>

fun run_pipeline_loop ::
  "backend \<Rightarrow> config \<Rightarrow> module_globals \<Rightarrow> string \<Rightarrow> (string \<times> query) list \<Rightarrow> world \<Rightarrow> (error + unit) \<times> world" where
  "run_pipeline_loop be cfg g namespace [] w = (Inr (), w)"
| "run_pipeline_loop be cfg g namespace ((metric', q) # rest) w =
     (let w1 = logging INFO (''Retrieving '' @ metric' @ '' for namespace '' @ namespace @ ''...'') w
      in case get_gke_metrics be cfg g metric' q namespace w1 of
           (Inl e, w2) \<Rightarrow> (Inl e, w2)
         | (Inr rows_to_insert, w2) \<Rightarrow>
             if rows_to_insert \<noteq> [] then
               (case write_to_bigquery be cfg rows_to_insert w2 of
                  (Inl e, w3) \<Rightarrow> (Inl e, w3)
                | (Inr u, w3) \<Rightarrow> run_pipeline_loop be cfg g namespace rest w3)
             else
               run_pipeline_loop be cfg g namespace rest
                 (logging INFO (metric' @ '' unavailable. Skip'') w2))"

definition run_pipeline ::
  "backend \<Rightarrow> config \<Rightarrow> module_globals \<Rightarrow> string \<Rightarrow> world \<Rightarrow> (error + unit) \<times> world" where
  "run_pipeline be cfg g namespace w =
     (case run_pipeline_loop be cfg g namespace (MQL_QUERY cfg) w of
        (Inl e, w') \<Rightarrow> (Inl e, w')
      | (Inr u, w') \<Rightarrow> (Inr (), logging INFO ''Run Completed'' w'))"

subsection \<open>get_namespaces\<close>

text \<open>
  The set \<^verbatim>\<open>namespaces\<close> is kept as a list without repetitions; \<^verbatim>\<open>list(namespaces)\<close>
  enumerates a Python set in an order the language does not fix, and nothing below depends on
  the order chosen here (the order of first insertion).
\<close>

definition set_add :: "string \<Rightarrow> string list \<Rightarrow> string list" where
  "set_add x xs = (if x \<in> set xs then xs else xs @ [x])"

fun collect_namespaces :: "pager_event list \<Rightarrow> string list \<Rightarrow> error option \<times> string list" where
  "collect_namespaces [] namespaces = (None, namespaces)"
| "collect_namespaces (Iter_Raises e # rest) namespaces = (Some e, namespaces)"
| "collect_namespaces (Yield result # rest) namespaces =
     (case getitem (resource_labels result) ''namespace_name'' of
        Inl e \<Rightarrow> (Some e, namespaces)
      | Inr n \<Rightarrow> collect_namespaces rest (set_add n namespaces))"

text \<open>
  The two readings of the clock are parameters, in whole seconds (the program truncates with
  \<^verbatim>\<open>int\<close>); the timestamps of this request carry no nanoseconds.
\<close>

definition namespaces_request :: "config \<Rightarrow> int \<Rightarrow> int \<Rightarrow> request" where
  "namespaces_request cfg time1 time2 =
     \<lparr>req_name = project_name cfg,
      req_filter = ''metric.type = \"kubernetes.io/container/cpu/core_usage_time\"  AND '' @
                   namespace_filter cfg,
      req_interval =
        \<lparr>end_time = \<lparr>seconds = time2, nanos = 0\<rparr>,
         interval_start_time = \<lparr>seconds = time1 - METRIC_WINDOW cfg, nanos = 0\<rparr>\<rparr>,
      req_view = ''FULL'',
      req_aggregation =
        \<lparr>alignment_period = METRIC_WINDOW cfg,
         agg_per_series_aligner = ''ALIGN_RATE'',
         agg_cross_series_reducer = ''REDUCE_SUM'',
         group_by_fields = [''resource.label.\"namespace_name\"'']\<rparr>\<rparr>"

text \<open>
  The two \<^verbatim>\<open>except\<close> clauses of \<^verbatim>\<open>get_namespaces\<close>; after either, control reaches the last
  line, \<^verbatim>\<open>return list(namespaces)\<close>.
\<close>

definition namespaces_except :: "error \<Rightarrow> string list \<Rightarrow> world \<Rightarrow> (error + string list) \<times> world" where
  "namespaces_except e namespaces w =
     (case e of
        GoogleAPICallError m \<Rightarrow>
          (Inr namespaces, logging ERROR (''Google API call error: '' @ str_error e) w)
      | _ \<Rightarrow> (Inr namespaces, logging ERROR (''Unexpected error: '' @ str_error e) w))"

definition get_namespaces ::
  "backend \<Rightarrow> config \<Rightarrow> int \<Rightarrow> int \<Rightarrow> world \<Rightarrow> (error + string list) \<times> world" where
  "get_namespaces be cfg time1 time2 w =
     (let req = namespaces_request cfg time1 time2;
          w1 = w\<lparr>ts_calls := ts_calls w @ [req]\<rparr>
      in case list_time_series be (length (ts_calls w)) req of
           Call_Raises e \<Rightarrow> namespaces_except e [] w1
         | Pager results \<Rightarrow>
             (let w2 = logging INFO ''Building Row'' w1
              in case collect_namespaces results [] of
                   (None, namespaces) \<Rightarrow> (Inr namespaces, w2)
                 | (Some e, namespaces) \<Rightarrow> namespaces_except e namespaces w2))"

subsection \<open>The main block\<close>

text \<open>
  \<^verbatim>\<open>for namespace in monitor_namespaces: asyncio.run(run_pipeline(namespace))\<close>, with no
  \<^verbatim>\<open>try\<close> around it: an exception that leaves \<^verbatim>\<open>run_pipeline\<close> leaves the loop and ends
  the program.
\<close>

fun main_loop ::
  "backend \<Rightarrow> config \<Rightarrow> module_globals \<Rightarrow> string list \<Rightarrow> world \<Rightarrow> (error + unit) \<times> world" where
  "main_loop be cfg g [] w = (Inr (), w)"
| "main_loop be cfg g (namespace # rest) w =
     (case run_pipeline be cfg g namespace w of
        (Inl e, w') \<Rightarrow> (Inl e, w')
      | (Inr u, w') \<Rightarrow> main_loop be cfg g rest w')"

definition main ::
  "backend \<Rightarrow> config \<Rightarrow> module_globals \<Rightarrow> int \<Rightarrow> int \<Rightarrow> world \<Rightarrow> (error + unit) \<times> world" where
  "main be cfg g time1 time2 w =
     (case get_namespaces be cfg time1 time2 w of
        (Inl e, w1) \<Rightarrow> (Inl e, w1)
      | (Inr monitor_namespaces, w1) \<Rightarrow>
          if length monitor_namespaces > 0 then main_loop be cfg g monitor_namespaces w1
          else (Inr (), logging ERROR ''Monitored Namespace list is zero size, end Job'' w1))"

subsection \<open>What a fetch has accumulated when it stops\<close>

text \<open>
  The rows and the namespaces "accumulated before the error", written without the loops: an
  event of the pager is passed when it is a series whose row can be built (whose namespace
  label can be read); the rows are those of the events before the first one that is not passed,
  and the error is that event's.
\<close>

definition event_error :: "module_globals \<Rightarrow> string \<Rightarrow> pager_event \<Rightarrow> error option" where
  "event_error g n ev =
     (case ev of
        Yield result \<Rightarrow> (case build_row g n result of Inl e \<Rightarrow> Some e | Inr r \<Rightarrow> None)
      | Iter_Raises e \<Rightarrow> Some e)"

definition event_rows :: "module_globals \<Rightarrow> string \<Rightarrow> pager_event \<Rightarrow> row list" where
  "event_rows g n ev =
     (case ev of
        Yield result \<Rightarrow> (case build_row g n result of Inl e \<Rightarrow> [] | Inr r \<Rightarrow> [r])
      | Iter_Raises e \<Rightarrow> [])"

definition rows_before_error :: "module_globals \<Rightarrow> string \<Rightarrow> pager_event list \<Rightarrow> row list" where
  "rows_before_error g n evs =
     concat (map (event_rows g n) (takeWhile (\<lambda>ev. event_error g n ev = None) evs))"

definition first_error :: "module_globals \<Rightarrow> string \<Rightarrow> pager_event list \<Rightarrow> error option" where
  "first_error g n evs =
     (case dropWhile (\<lambda>ev. event_error g n ev = None) evs of
        [] \<Rightarrow> None
      | ev # rest \<Rightarrow> event_error g n ev)"

definition fetch_rows :: "module_globals \<Rightarrow> string \<Rightarrow> ts_response \<Rightarrow> row list" where
  "fetch_rows g n resp =
     (case resp of Call_Raises e \<Rightarrow> [] | Pager results \<Rightarrow> rows_before_error g n results)"

definition fetch_error :: "module_globals \<Rightarrow> string \<Rightarrow> ts_response \<Rightarrow> error option" where
  "fetch_error g n resp =
     (case resp of Call_Raises e \<Rightarrow> Some e | Pager results \<Rightarrow> first_error g n results)"

definition namespace_error :: "pager_event \<Rightarrow> error option" where
  "namespace_error ev =
     (case ev of
        Yield result \<Rightarrow>
          (case resource_labels result ''namespace_name'' of
             None \<Rightarrow> Some (KeyError ''namespace_name'')
           | Some n \<Rightarrow> None)
      | Iter_Raises e \<Rightarrow> Some e)"



definition discovery_error :: "ts_response \<Rightarrow> error option" where
  "discovery_error resp =
     (case resp of
        Call_Raises e \<Rightarrow> Some e
      | Pager results \<Rightarrow>
          (case dropWhile (\<lambda>ev. namespace_error ev = None) results of
             [] \<Rightarrow> None
           | ev # rest \<Rightarrow> namespace_error ev))"


text \<open>The line either handler writes to the log, and the lines a fetch adds to the log.\<close>

definition error_line :: "level \<Rightarrow> error \<Rightarrow> level \<times> string" where
  "error_line lv e =
     (lv, (case e of GoogleAPICallError m \<Rightarrow> ''Google API call error: '' | _ \<Rightarrow> ''Unexpected error: '')
          @ str_error e)"

definition fetch_log :: "level \<Rightarrow> ts_response \<Rightarrow> error option \<Rightarrow> (level \<times> string) list" where
  "fetch_log lv resp err =
     (case resp of Call_Raises e \<Rightarrow> [] | Pager results \<Rightarrow> [(INFO, ''Building Row'')]) @
     (case err of None \<Rightarrow> [] | Some e \<Rightarrow> [error_line lv e])"

text \<open>The number a string of decimal digits stands for.\<close>

definition digits_value :: "string \<Rightarrow> nat" where
  "digits_value s = foldl (\<lambda>a c. 10 * a + (of_char c - 48)) 0 s"

text \<open>The three identity fields of a row.\<close>

definition identity_fields :: "row \<Rightarrow> string \<times> string \<times> string" where
  "identity_fields r = (controller_name r, controller_type r, container_name r)"

subsection \<open>Sample data\<close>

definition t0 :: datetime where
  "t0 = \<lparr>year = 2023, month = 6, day = 1, hour = 12, minute = 0, second = 5, microsecond = 250000\<rparr>"

definition t1 :: datetime where
  "t1 = \<lparr>year = 2023, month = 6, day = 1, hour = 12, minute = 1, second = 5, microsecond = 0\<rparr>"

definition g0 :: module_globals where
  "g0 = \<lparr>g_run_date = \<lparr>year = 2023, month = 6, day = 1, hour = 13, minute = 0, second = 0,
                        microsecond = 123456\<rparr>,
         g_seconds = 1685624400, g_nanos = 0\<rparr>"

text \<open>Two points: the double \<open>1.5\<close>, and a double \<open>0.0\<close> beside the integer \<open>5\<close>.\<close>

definition point0 :: point where
  "point0 = \<lparr>interval = \<lparr>start_time = t0\<rparr>,
             point_value = \<lparr>double_value = 0x3FF8000000000000, int64_value = 0\<rparr>\<rparr>"

definition point1 :: point where
  "point1 = \<lparr>interval = \<lparr>start_time = t1\<rparr>,
             point_value = \<lparr>double_value = 0, int64_value = 5\<rparr>\<rparr>"

text \<open>A series that carries every label the program may read, each source with its own values.\<close>

definition series0 :: time_series where
  "series0 =
     \<lparr>resource_labels =
        [''project_id'' \<mapsto> ''demo'', ''location'' \<mapsto> ''us-central1'', ''cluster_name'' \<mapsto> ''c1'',
         ''namespace_name'' \<mapsto> ''billing'', ''container_name'' \<mapsto> ''app'',
         ''controller_name'' \<mapsto> ''api'', ''controller_kind'' \<mapsto> ''Deployment''],
      system_labels_fields =
        [''top_level_controller_name'' \<mapsto> \<lparr>string_value = ''api-top''\<rparr>,
         ''top_level_controller_type'' \<mapsto> \<lparr>string_value = ''CronJob''\<rparr>],
      metric_labels =
        [''targetref_name'' \<mapsto> ''api-target'', ''targetref_kind'' \<mapsto> ''StatefulSet'',
         ''container_name'' \<mapsto> ''sidecar''],
      points = [point0, point1]\<rparr>"

text \<open>The same series with another controller in its resource labels, with another container
  in its metric labels, and in another namespace.\<close>

definition series_worker :: time_series where
  "series_worker = series0\<lparr>resource_labels := (resource_labels series0)(''controller_name'' \<mapsto> ''worker'')\<rparr>"

definition series_proxy :: time_series where
  "series_proxy = series0\<lparr>metric_labels := (metric_labels series0)(''container_name'' \<mapsto> ''proxy'')\<rparr>"

definition series_search :: time_series where
  "series_search = series0\<lparr>resource_labels := (resource_labels series0)(''namespace_name'' \<mapsto> ''search'')\<rparr>"

text \<open>The row the program builds from \<open>series0\<close>, but for the metric's name and the identity.\<close>

definition row_points :: "point_entry list" where
  "row_points =
     [\<lparr>metric_timestamp = ''2023-06-01 12:00:05.250000'', metric_value = 0x3FF8000000000000\<rparr>,
      \<lparr>metric_timestamp = ''2023-06-01 12:01:05.000000'', metric_value = 0x4014000000000000\<rparr>]"

definition row_of_series0 :: "string \<Rightarrow> string \<times> string \<times> string \<Rightarrow> row" where
  "row_of_series0 n ident =
     \<lparr>run_date = ''2023-06-01 13:00:00'', metric_name = n, project_id = ''demo'',
      location = ''us-central1'', cluster_name = ''c1'', namespace_name = ''billing'',
      controller_name = fst ident, controller_type = fst (snd ident),
      container_name = snd (snd ident), points_array = row_points\<rparr>"

definition query0 :: query where
  "query0 = \<lparr>metric = ''kubernetes.io/container/cpu/core_usage_time'', window = 3600,
             seconds_between_points = 60, per_series_aligner = ''ALIGN_RATE'',
             cross_series_reducer = ''REDUCE_SUM'', columns = []\<rparr>"

definition query1 :: query where
  "query1 = \<lparr>metric = ''kubernetes.io/autoscaler/container/cpu/per_replica_recommended_request_cores'',
             window = 3600, seconds_between_points = 60, per_series_aligner = ''ALIGN_MEAN'',
             cross_series_reducer = ''REDUCE_MEAN'', columns = []\<rparr>"

definition config0 :: config where
  "config0 = \<lparr>PROJECT_ID = ''demo'', TABLE_ID = ''demo.metrics.samples'',
              MQL_QUERY = [(''cpu_usage'', query0), (''cpu_vpa_recommendation'', query1)],
              METRIC_WINDOW = 3600, namespace_filter = ''resource.label.namespace_name = billing''\<rparr>"

definition world0 :: world where
  "world0 = \<lparr>log_lines = [], ts_calls = [], bq_calls = []\<rparr>"

text \<open>
  A backend that answers its calls to \<^verbatim>\<open>list_time_series\<close> from a list, in turn (an empty
  pager once the list is used up), and every insertion with the same answer.
\<close>

definition scripted :: "ts_response list \<Rightarrow> insert_response \<Rightarrow> backend" where
  "scripted answers ins =
     \<lparr>list_time_series = (\<lambda>n req. if n < length answers then answers ! n else Pager []),
      insert_rows_json = (\<lambda>n table rows. ins)\<rparr>"

text \<open>
  Three backends: one whose pager yields \<open>series0\<close> and then raises; one whose discovery finds two
  namespaces and whose insertions are all rejected; one whose first fetch finds nothing. Then
  the state after the discovery of the second, the state after its first fetch, and the row of
  that fetch.
\<close>

definition backend_partial :: backend where
  "backend_partial =
     scripted [Pager [Yield series0, Iter_Raises (GoogleAPICallError ''503 Service Unavailable'')]]
       (Insert_Returns [])"

definition backend_rejecting :: backend where
  "backend_rejecting =
     scripted [Pager [Yield series0, Yield series_search], Pager [Yield series0]]
       (Insert_Returns [''row 0: no such field''])"

definition backend_quiet_first :: backend where
  "backend_quiet_first = scripted [Pager [], Pager [Yield series0]] (Insert_Returns [])"

definition world_discovered :: world where
  "world_discovered =
     \<lparr>log_lines = [(INFO, ''Building Row'')],
      ts_calls = [namespaces_request config0 1685624400 1685624401],
      bq_calls = []\<rparr>"

definition world_fetched :: world where
  "world_fetched =
     snd (get_gke_metrics backend_rejecting config0 g0 ''cpu_usage'' query0 ''billing''
            (logging INFO ''Retrieving cpu_usage for namespace billing...'' world_discovered))"

definition row_usage :: row where
  "row_usage = row_of_series0 ''cpu_usage'' (''api-top'', ''CronJob'', ''app'')"

section \<open>Properties\<close>

subsection \<open>Strings and numbers\<close>


lemma mask63: "(0x7FFFFFFFFFFFFFFF :: 64 word) = mask 63"
  by (simp add: mask_eq_exp_minus_1)

lemma two_multiples:
  fixes x :: nat
  assumes "x < 2 * m" and "x mod m = 0"
  shows "x = 0 \<or> x = m"
proof -
  from assms(2) obtain k where k: "x = m * k" by auto
  with assms(1) have "k < 2" by (cases "m = 0") auto
  then have "k = 0 \<or> k = 1" by auto
  with k show ?thesis by auto
qed

lemma double_truthy_iff: "double_truthy d \<longleftrightarrow> d \<noteq> 0 \<and> d \<noteq> 0x8000000000000000"
proof -
  have lt: "unat d < 2 * 2 ^ 63" using unsigned_less [of d] by simp
  have "\<not> double_truthy d \<longleftrightarrow> d AND mask 63 = 0"
    by (simp add: double_truthy_def mask63)
  also have "\<dots> \<longleftrightarrow> unat d mod 2 ^ 63 = 0"
    by (simp only: and_mask_dvd_nat [symmetric] dvd_eq_mod_eq_0)
  also have "\<dots> \<longleftrightarrow> unat d = 0 \<or> unat d = 2 ^ 63"
    using two_multiples [OF lt] by auto
  also have "\<dots> \<longleftrightarrow> d = 0 \<or> d = 0x8000000000000000"
  proof -
    have "unat d = 2 ^ 63 \<longleftrightarrow> d = 0x8000000000000000"
      using word_unat_eq_iff [of d "0x8000000000000000"] by simp
    then show ?thesis by (simp add: unat_eq_0)
  qed
  finally show ?thesis by blast
qed

text \<open>Rules that evaluate the recursive functions on numerals.\<close>

lemma str_nat_digit: "n < 10 \<Longrightarrow> str_nat n = [digit_char n]"
  by (simp add: str_nat.simps)

lemma str_nat_step: "10 \<le> n \<Longrightarrow> str_nat n = str_nat (n div 10) @ [digit_char (n mod 10)]"
  by (subst str_nat.simps) simp

lemma bit_length_0: "bit_length 0 = 0"
  by (simp add: bit_length.simps)

lemma bit_length_step: "0 < n \<Longrightarrow> bit_length n = Suc (bit_length (n div 2))"
  by (subst bit_length.simps) simp

lemma zeros_numeral:
  "replicate (numeral k) (CHR ''0'') = CHR ''0'' # replicate (pred_numeral k) (CHR ''0'')"
  by (simp add: numeral_eq_Suc)

lemmas eval_simps = zeros_numeral str_nat_digit str_nat_step digit_char_def zfill_def strftime_seconds_def
  strftime_micros_def

lemma strftime_g0: "strftime_seconds (g_run_date g0) = ''2023-06-01 13:00:00''"
  by (simp add: eval_simps g0_def)

lemma strftime_t0: "strftime_micros t0 = ''2023-06-01 12:00:05.250000''"
  by (simp add: eval_simps t0_def)

lemma strftime_t1: "strftime_micros t1 = ''2023-06-01 12:01:05.000000''"
  by (simp add: eval_simps t1_def)

lemma py_float_5: "py_float 5 = 0x4014000000000000"
  by (simp add: py_float_def bit_length_0 bit_length_step Let_def)

lemma py_float_big: "py_float (2 ^ 53 + 1) = 0x4340000000000000"
  by (simp add: py_float_def bit_length_0 bit_length_step Let_def round_half_even_def)

lemma py_float_neg: "py_float (- 2) = 0xC000000000000000"
  by (simp add: py_float_def bit_length_0 bit_length_step Let_def round_half_even_def)

subsection \<open>Building a row\<close>

lemma and_then_Inr_iff:
  "and_then r f = Inr y \<longleftrightarrow> (\<exists>v. r = Inr v \<and> f v = Inr y)"
  by (cases r) (simp_all add: and_then_def)

lemma getitem_Inr_iff: "getitem d k = Inr v \<longleftrightarrow> d k = Some v"
  by (simp add: getitem_def split: option.splits)

lemma build_row_Inr:
  assumes "build_row g n result = Inr r"
  shows "controller_identity n result = Inr (identity_fields r)"
    and "points_array r = map point_dict (points result)"
    and "metric_name r = n"
    and "run_date r = strftime_seconds (g_run_date g)"
    and "resource_labels result ''project_id'' = Some (project_id r)"
    and "resource_labels result ''location'' = Some (location r)"
    and "resource_labels result ''cluster_name'' = Some (cluster_name r)"
    and "resource_labels result ''namespace_name'' = Some (namespace_name r)"
  using assms
  by (auto simp: build_row_def and_then_Inr_iff getitem_Inr_iff identity_fields_def)

lemma controller_identity_hpa:
  assumes "py_in ''hpa'' n" and "controller_identity n result = Inr (cn, ct, co)"
  shows "metric_labels result ''targetref_name'' = Some cn"
    and "metric_labels result ''targetref_kind'' = Some ct"
    and "metric_labels result ''container_name'' = Some co"
  using assms
  by (auto simp: controller_identity_def Let_def and_then_Inr_iff getitem_Inr_iff)

lemma controller_identity_vpa:
  assumes "\<not> py_in ''hpa'' n" and "py_in ''vpa'' n"
    and "controller_identity n result = Inr (cn, ct, co)"
  shows "resource_labels result ''controller_name'' = Some cn"
    and "resource_labels result ''controller_kind'' = Some ct"
    and "metric_labels result ''container_name'' = Some co"
  using assms
  by (auto simp: controller_identity_def Let_def and_then_Inr_iff getitem_Inr_iff)

lemma controller_identity_other:
  assumes "\<not> py_in ''hpa'' n" and "\<not> py_in ''vpa'' n"
    and "controller_identity n result = Inr (cn, ct, co)"
  shows "map_option string_value (system_labels_fields result ''top_level_controller_name'') = Some cn"
    and "map_option string_value (system_labels_fields result ''top_level_controller_type'') = Some ct"
    and "resource_labels result ''container_name'' = Some co"
  using assms
  by (auto simp: controller_identity_def Let_def and_then_Inr_iff getitem_Inr_iff)

subsection \<open>The loops over the pager\<close>

lemma build_rows_eq:
  "build_rows g n evs acc = (first_error g n evs, acc @ rows_before_error g n evs)"
proof (induction evs arbitrary: acc)
  case Nil
  show ?case by (simp add: first_error_def rows_before_error_def)
next
  case (Cons ev evs)
  show ?case
  proof (cases ev)
    case (Iter_Raises e)
    then show ?thesis
      by (simp add: first_error_def rows_before_error_def event_error_def)
  next
    case (Yield result)
    show ?thesis
    proof (cases "build_row g n result")
      case (Inl e)
      with Yield show ?thesis
        by (simp add: first_error_def rows_before_error_def event_error_def)
    next
      case (Inr r)
      with Yield Cons.IH [of "acc @ [r]"] show ?thesis
        by (simp add: first_error_def rows_before_error_def event_error_def event_rows_def)
    qed
  qed
qed

lemma metrics_except_eq:
  "metrics_except e rows w = (Inr rows, w\<lparr>log_lines := log_lines w @ [error_line INFO e]\<rparr>)"
  by (cases e) (simp_all add: metrics_except_def logging_def error_line_def)

lemma get_gke_metrics_eq:
  "get_gke_metrics be cfg g n q ns w =
     (let req = metrics_request cfg g q ns;
          resp = list_time_series be (length (ts_calls w)) req
      in (Inr (fetch_rows g n resp),
          w\<lparr>ts_calls := ts_calls w @ [req],
            log_lines := log_lines w @ fetch_log INFO resp (fetch_error g n resp)\<rparr>))"
  by (simp add: get_gke_metrics_def Let_def fetch_rows_def fetch_error_def fetch_log_def
      build_rows_eq metrics_except_eq logging_def
      split: ts_response.splits option.splits)



lemma collect_namespaces_error:
  "fst (collect_namespaces evs acc) = discovery_error (Pager evs)"
proof (induction evs arbitrary: acc)
  case Nil
  show ?case by (simp add: discovery_error_def)
next
  case (Cons ev evs)
  show ?case
  proof (cases ev)
    case (Iter_Raises e)
    then show ?thesis by (simp add: discovery_error_def namespace_error_def)
  next
    case (Yield result)
    with Cons.IH show ?thesis
      by (cases "resource_labels result ''namespace_name''")
         (simp_all add: discovery_error_def namespace_error_def getitem_def)
  qed
qed



lemma namespaces_except_eq:
  "namespaces_except e nss w = (Inr nss, w\<lparr>log_lines := log_lines w @ [error_line ERROR e]\<rparr>)"
  by (cases e) (simp_all add: namespaces_except_def logging_def error_line_def)

lemma get_namespaces_eq:
  "get_namespaces be cfg time1 time2 w =
     (let req = namespaces_request cfg time1 time2;
          resp = list_time_series be (length (ts_calls w)) req
      in (Inr (case resp of Call_Raises e \<Rightarrow> [] | Pager results \<Rightarrow> snd (collect_namespaces results [])),
          w\<lparr>ts_calls := ts_calls w @ [req],
            log_lines := log_lines w @ fetch_log ERROR resp (discovery_error resp)\<rparr>))"
proof (cases "list_time_series be (length (ts_calls w)) (namespaces_request cfg time1 time2)")
  case (Call_Raises e)
  then show ?thesis
    by (simp add: get_namespaces_def Let_def namespaces_except_eq fetch_log_def discovery_error_def)
next
  case (Pager results)
  obtain err nss where c: "collect_namespaces results [] = (err, nss)"
    by (cases "collect_namespaces results []")
  with collect_namespaces_error [of results "[]"] have err: "discovery_error (Pager results) = err"
    by simp
  from Pager c err show ?thesis
    by (cases err)
       (simp_all add: get_namespaces_def Let_def namespaces_except_eq logging_def fetch_log_def)
qed


lemma length_rows_before_error: "length (rows_before_error g n evs) \<le> length evs"
proof (induction evs)
  case Nil
  show ?case by (simp add: rows_before_error_def)
next
  case (Cons ev evs)
  then show ?case
    by (cases ev) (auto simp: rows_before_error_def event_error_def event_rows_def split: sum.splits)
qed

lemma first_error_None_all:
  "first_error g n evs = None \<Longrightarrow> length (rows_before_error g n evs) = length evs"
proof (induction evs)
  case Nil
  show ?case by (simp add: rows_before_error_def)
next
  case (Cons ev evs)
  then show ?case
    by (cases ev) (auto simp: first_error_def rows_before_error_def event_error_def event_rows_def split: sum.splits)
qed

subsection \<open>The sample data, evaluated\<close>

lemma points_series0: "map point_dict (points series0) = row_points"
  by (simp add: series0_def point_dict_def point0_def point1_def row_points_def
      strftime_t0 strftime_t1 py_float_5 py_or_def double_truthy_def)

lemma build_row_series0:
  "controller_identity n series0 = Inr ident \<Longrightarrow> build_row g0 n series0 = Inr (row_of_series0 n ident)"
  using points_series0
  by (simp add: build_row_def and_then_def getitem_def row_of_series0_def strftime_g0 series0_def
      split: prod.splits)

lemma identity_vpa_series0:
  "controller_identity ''cpu_vpa_recommendation'' series0 = Inr (''api'', ''Deployment'', ''sidecar'')"
  by (simp add: controller_identity_def and_then_def getitem_def series0_def Let_def)


lemma identity_usage_series0:
  "controller_identity ''cpu_usage'' series0 = Inr (''api-top'', ''CronJob'', ''app'')"
  by (simp add: controller_identity_def and_then_def getitem_def series0_def Let_def)


section \<open>The claims\<close>



text \<open>Rows of the two variants of \<open>series0\<close>.\<close>

lemma identity_vpa_series_worker:
  "controller_identity ''cpu_vpa_recommendation'' series_worker = Inr (''worker'', ''Deployment'', ''sidecar'')"
  by (simp add: controller_identity_def and_then_def getitem_def series_worker_def series0_def Let_def)

lemma identity_vpa_series_proxy:
  "controller_identity ''cpu_vpa_recommendation'' series_proxy = Inr (''api'', ''Deployment'', ''proxy'')"
  by (simp add: controller_identity_def and_then_def getitem_def series_proxy_def series0_def Let_def)

lemma build_row_series_worker:
  "controller_identity n series_worker = Inr ident \<Longrightarrow>
   build_row g0 n series_worker = Inr (row_of_series0 n ident)"
  using points_series0
  by (simp add: build_row_def and_then_def getitem_def row_of_series0_def strftime_g0
      series_worker_def series0_def split: prod.splits)

lemma build_row_series_proxy:
  "controller_identity n series_proxy = Inr ident \<Longrightarrow>
   build_row g0 n series_proxy = Inr (row_of_series0 n ident)"
  using points_series0
  by (simp add: build_row_def and_then_def getitem_def row_of_series0_def strftime_g0
      series_proxy_def series0_def split: prod.splits)

lemma identity_fields_row_of_series0: "identity_fields (row_of_series0 n ident) = ident"
  by (simp add: identity_fields_def row_of_series0_def)

text \<open>
  C2. The claim: for every metric name and every series, the controller's name and type and the
  container's name of the row all come from one and the same source (metric labels, resource
  labels or metadata), never from a mix.

  It fails for a name with \<^verbatim>\<open>vpa\<close>. Below, \<open>series_worker\<close> differs from \<open>series0\<close> in its
  resource labels only and the row's controller name follows it, so the three fields are
  determined neither by the metric labels nor by the metadata; \<open>series_proxy\<close> differs from
  \<open>series0\<close> in its metric labels only and the row's container name follows it, so they are not
  determined by the resource labels either.
\<close>

theorem C2_single_source_counterexample:
  "metric_labels series_worker = metric_labels series0 \<and>
   system_labels_fields series_worker = system_labels_fields series0 \<and>
   resource_labels series_proxy = resource_labels series0 \<and>
   system_labels_fields series_proxy = system_labels_fields series0 \<and>
   map_sum id identity_fields (build_row g0 ''cpu_vpa_recommendation'' series0)
     = Inr (''api'', ''Deployment'', ''sidecar'') \<and>
   map_sum id identity_fields (build_row g0 ''cpu_vpa_recommendation'' series_worker)
     = Inr (''worker'', ''Deployment'', ''sidecar'') \<and>
   map_sum id identity_fields (build_row g0 ''cpu_vpa_recommendation'' series_proxy)
     = Inr (''api'', ''Deployment'', ''proxy'')"
proof -
  have labels: "metric_labels series_worker = metric_labels series0 \<and>
      system_labels_fields series_worker = system_labels_fields series0 \<and>
      resource_labels series_proxy = resource_labels series0 \<and>
      system_labels_fields series_proxy = system_labels_fields series0"
    by (simp add: series_worker_def series_proxy_def)
  have rows: "map_sum id identity_fields (build_row g0 ''cpu_vpa_recommendation'' series0)
       = Inr (''api'', ''Deployment'', ''sidecar'') \<and>
     map_sum id identity_fields (build_row g0 ''cpu_vpa_recommendation'' series_worker)
       = Inr (''worker'', ''Deployment'', ''sidecar'') \<and>
     map_sum id identity_fields (build_row g0 ''cpu_vpa_recommendation'' series_proxy)
       = Inr (''api'', ''Deployment'', ''proxy'')"
    by (simp add: build_row_series0 [OF identity_vpa_series0]
        build_row_series_worker [OF identity_vpa_series_worker]
        build_row_series_proxy [OF identity_vpa_series_proxy]
        identity_fields_row_of_series0)
  from labels rows show ?thesis by blast
qed

text \<open>
  C2, amended. The source of each field is fixed by the branch the metric's name selects, and
  only the \<^verbatim>\<open>hpa\<close> branch reads a single source: for a name with \<^verbatim>\<open>hpa\<close> the three fields
  depend on the metric labels alone; for a name with \<^verbatim>\<open>vpa\<close> (and without \<^verbatim>\<open>hpa\<close>) the
  controller's name and type depend on the resource labels alone and the container's name on the
  metric labels alone; for every other name the controller's name and type depend on the
  metadata alone and the container's name on the resource labels alone.
\<close>

theorem C2_sources_per_branch:
  assumes "build_row g n s = Inr r" and "build_row g n s' = Inr r'"
  shows "(py_in ''hpa'' n \<and> metric_labels s = metric_labels s'
            \<longrightarrow> identity_fields r = identity_fields r') \<and>
         (\<not> py_in ''hpa'' n \<and> py_in ''vpa'' n \<and> resource_labels s = resource_labels s'
            \<longrightarrow> controller_name r = controller_name r' \<and> controller_type r = controller_type r') \<and>
         (\<not> py_in ''hpa'' n \<and> py_in ''vpa'' n \<and> metric_labels s = metric_labels s'
            \<longrightarrow> container_name r = container_name r') \<and>
         (\<not> py_in ''hpa'' n \<and> \<not> py_in ''vpa'' n \<and> system_labels_fields s = system_labels_fields s'
            \<longrightarrow> controller_name r = controller_name r' \<and> controller_type r = controller_type r') \<and>
         (\<not> py_in ''hpa'' n \<and> \<not> py_in ''vpa'' n \<and> resource_labels s = resource_labels s'
            \<longrightarrow> container_name r = container_name r')"
proof -
  have i: "controller_identity n s = Inr (controller_name r, controller_type r, container_name r)"
    using build_row_Inr(1) [OF assms(1)] by (simp add: identity_fields_def)
  have i': "controller_identity n s' = Inr (controller_name r', controller_type r', container_name r')"
    using build_row_Inr(1) [OF assms(2)] by (simp add: identity_fields_def)
  have hpa: "identity_fields r = identity_fields r'"
    if "py_in ''hpa'' n" and "metric_labels s = metric_labels s'"
    using controller_identity_hpa [OF that(1) i] controller_identity_hpa [OF that(1) i'] that(2)
    by (simp add: identity_fields_def)
  have vpa_res: "controller_name r = controller_name r' \<and> controller_type r = controller_type r'"
    if "\<not> py_in ''hpa'' n" and "py_in ''vpa'' n" and "resource_labels s = resource_labels s'"
    using controller_identity_vpa(1,2) [OF that(1,2) i] controller_identity_vpa(1,2) [OF that(1,2) i']
      that(3)
    by simp
  have vpa_met: "container_name r = container_name r'"
    if "\<not> py_in ''hpa'' n" and "py_in ''vpa'' n" and "metric_labels s = metric_labels s'"
    using controller_identity_vpa(3) [OF that(1,2) i] controller_identity_vpa(3) [OF that(1,2) i']
      that(3)
    by simp
  have oth_meta: "controller_name r = controller_name r' \<and> controller_type r = controller_type r'"
    if "\<not> py_in ''hpa'' n" and "\<not> py_in ''vpa'' n"
      and "system_labels_fields s = system_labels_fields s'"
    using controller_identity_other(1,2) [OF that(1,2) i]
      controller_identity_other(1,2) [OF that(1,2) i'] that(3)
    by simp
  have oth_res: "container_name r = container_name r'"
    if "\<not> py_in ''hpa'' n" and "\<not> py_in ''vpa'' n" and "resource_labels s = resource_labels s'"
    using controller_identity_other(3) [OF that(1,2) i]
      controller_identity_other(3) [OF that(1,2) i'] that(3)
    by simp
  from hpa vpa_res vpa_met oth_meta oth_res show ?thesis by blast
qed

text \<open>The theorem at \<open>series0\<close> and \<open>series_proxy\<close>, which have the same resource labels.\<close>

theorem C2_sources_per_branch_witness:
  "build_row g0 ''cpu_vpa_recommendation'' series0
     = Inr (row_of_series0 ''cpu_vpa_recommendation'' (''api'', ''Deployment'', ''sidecar'')) \<and>
   build_row g0 ''cpu_vpa_recommendation'' series_proxy
     = Inr (row_of_series0 ''cpu_vpa_recommendation'' (''api'', ''Deployment'', ''proxy'')) \<and>
   \<not> py_in ''hpa'' ''cpu_vpa_recommendation'' \<and> py_in ''vpa'' ''cpu_vpa_recommendation'' \<and>
   resource_labels series0 = resource_labels series_proxy \<and>
   controller_name (row_of_series0 ''cpu_vpa_recommendation'' (''api'', ''Deployment'', ''sidecar''))
     = controller_name (row_of_series0 ''cpu_vpa_recommendation'' (''api'', ''Deployment'', ''proxy'')) \<and>
   controller_type (row_of_series0 ''cpu_vpa_recommendation'' (''api'', ''Deployment'', ''sidecar''))
     = controller_type (row_of_series0 ''cpu_vpa_recommendation'' (''api'', ''Deployment'', ''proxy''))"
proof -
  have a: "build_row g0 ''cpu_vpa_recommendation'' series0
     = Inr (row_of_series0 ''cpu_vpa_recommendation'' (''api'', ''Deployment'', ''sidecar''))"
    by (rule build_row_series0 [OF identity_vpa_series0])
  have b: "build_row g0 ''cpu_vpa_recommendation'' series_proxy
     = Inr (row_of_series0 ''cpu_vpa_recommendation'' (''api'', ''Deployment'', ''proxy''))"
    by (rule build_row_series_proxy [OF identity_vpa_series_proxy])
  have c: "\<not> py_in ''hpa'' ''cpu_vpa_recommendation'' \<and> py_in ''vpa'' ''cpu_vpa_recommendation'' \<and>
      resource_labels series0 = resource_labels series_proxy"
    by (simp add: series_proxy_def)
  from C2_sources_per_branch [OF a b] a b c show ?thesis by blast
qed






text \<open>
  C4. For every point of every series, the \<^verbatim>\<open>metric_value\<close> of the row is the point's double
  value when that value is not a zero (neither \<open>+0.0\<close> nor \<open>-0.0\<close>; a field that is not set
  reads as \<open>0.0\<close>), and otherwise the point's integer value converted to a float; in particular
  a double value of exactly \<open>0.0\<close> falls through to the integer field.
\<close>

theorem C4_metric_value_fallback:
  assumes "build_row g n s = Inr r" and "i < length (points s)"
  shows "metric_value (points_array r ! i) =
           (if double_value (point_value (points s ! i)) = 0 \<or>
               double_value (point_value (points s ! i)) = 0x8000000000000000
            then py_float (sint (int64_value (point_value (points s ! i))))
            else double_value (point_value (points s ! i))) \<and>
         (double_value (point_value (points s ! i)) = 0 \<longrightarrow>
            metric_value (points_array r ! i)
              = py_float (sint (int64_value (point_value (points s ! i)))))"
  using assms(2) build_row_Inr(2) [OF assms(1)]
  by (simp add: point_dict_def py_or_def double_truthy_iff)

text \<open>The theorem at the second point of \<open>series0\<close>: a double \<open>0.0\<close> beside the integer 5
  gives \<open>5.0\<close>.\<close>

theorem C4_metric_value_fallback_witness:
  "build_row g0 ''cpu_usage'' series0 = Inr (row_of_series0 ''cpu_usage'' (''api-top'', ''CronJob'', ''app'')) \<and>
   points series0 ! 1 = point1 \<and> double_value (point_value point1) = 0 \<and>
   sint (int64_value (point_value point1)) = 5 \<and>
   metric_value (points_array (row_of_series0 ''cpu_usage'' (''api-top'', ''CronJob'', ''app'')) ! 1)
     = py_float 5 \<and>
   py_float 5 = 0x4014000000000000"
proof -
  have a: "build_row g0 ''cpu_usage'' series0
      = Inr (row_of_series0 ''cpu_usage'' (''api-top'', ''CronJob'', ''app''))"
    by (rule build_row_series0 [OF identity_usage_series0])
  have i: "1 < length (points series0)" by (simp add: series0_def)
  have p: "points series0 ! 1 = point1 \<and> double_value (point_value point1) = 0 \<and>
      sint (int64_value (point_value point1)) = 5"
    by (simp add: series0_def point1_def)
  from C4_metric_value_fallback [OF a i] a p py_float_5 show ?thesis by simp
qed

text \<open>Reading the digits of a rendered number gives the number back, whatever the padding.\<close>

lemma digit_char_value: "of_char (digit_char d) - 48 = d mod 10"
proof -
  define m where "m = d mod 10"
  then have "m < 10" by simp
  then have "m = 0 \<or> m = 1 \<or> m = 2 \<or> m = 3 \<or> m = 4 \<or> m = 5 \<or> m = 6 \<or> m = 7 \<or> m = 8 \<or> m = 9"
    by arith
  then have "of_char (''0123456789'' ! m) - 48 = m"
    by (elim disjE) simp_all
  then show ?thesis by (simp add: digit_char_def m_def)
qed

lemma digits_value_snoc: "digits_value (s @ [c]) = 10 * digits_value s + (of_char c - 48)"
  by (simp add: digits_value_def)

lemma digits_value_str_nat: "digits_value (str_nat n) = n"
proof (induction n rule: str_nat.induct)
  case (1 n)
  show ?case
  proof (cases "n < 10")
    case True
    then show ?thesis
      by (simp add: str_nat_digit digits_value_def digit_char_value)
  next
    case False
    with "1.IH" have "digits_value (str_nat (n div 10)) = n div 10" by simp
    with False show ?thesis
      by (simp add: str_nat_step digits_value_snoc digit_char_value)
  qed
qed

lemma digits_value_zeros: "digits_value (replicate k (CHR ''0'') @ s) = digits_value s"
  by (induction k) (simp_all add: digits_value_def)

lemma digits_value_zfill: "digits_value (zfill w (str_nat n)) = n"
  by (simp add: zfill_def digits_value_zeros digits_value_str_nat)

text \<open>
  C5. For every series with \<open>N\<close> points, the row built from it has a \<^verbatim>\<open>points_array\<close> of
  exactly \<open>N\<close> entries, in the order of the series; the timestamp of each entry is the start
  time of the point's interval, rendered to the second and followed by a dot and the
  microsecond in six digits (so the microsecond can be read back from it), and the value of
  each entry follows the double-or-integer rule.
\<close>

theorem C5_points_array_of_series:
  assumes "build_row g n s = Inr r"
  shows "length (points_array r) = length (points s) \<and>
         (\<forall>i<length (points s).
            metric_timestamp (points_array r ! i)
              = strftime_seconds (start_time (interval (points s ! i))) @ ''.'' @
                zfill 6 (str_nat (microsecond (start_time (interval (points s ! i))))) \<and>
            digits_value (drop (Suc (length (strftime_seconds (start_time (interval (points s ! i))))))
                          (metric_timestamp (points_array r ! i)))
              = microsecond (start_time (interval (points s ! i))) \<and>
            metric_value (points_array r ! i)
              = py_or (double_value (point_value (points s ! i)))
                      (py_float (sint (int64_value (point_value (points s ! i))))))"
  using build_row_Inr(2) [OF assms]
  by (simp add: point_dict_def strftime_micros_def digits_value_zfill)

text \<open>The theorem at \<open>series0\<close>, which has two points.\<close>

theorem C5_points_array_of_series_witness:
  "build_row g0 ''cpu_usage'' series0 = Inr (row_of_series0 ''cpu_usage'' (''api-top'', ''CronJob'', ''app'')) \<and>
   length (points series0) = 2 \<and>
   points_array (row_of_series0 ''cpu_usage'' (''api-top'', ''CronJob'', ''app'')) =
     [\<lparr>metric_timestamp = ''2023-06-01 12:00:05.250000'', metric_value = 0x3FF8000000000000\<rparr>,
      \<lparr>metric_timestamp = ''2023-06-01 12:01:05.000000'', metric_value = 0x4014000000000000\<rparr>] \<and>
   microsecond (start_time (interval (points series0 ! 0))) = 250000 \<and>
   digits_value (drop (Suc (length (strftime_seconds (start_time (interval (points series0 ! 0))))))
      (metric_timestamp (points_array (row_of_series0 ''cpu_usage'' (''api-top'', ''CronJob'', ''app'')) ! 0)))
     = 250000"
proof -
  have a: "build_row g0 ''cpu_usage'' series0
      = Inr (row_of_series0 ''cpu_usage'' (''api-top'', ''CronJob'', ''app''))"
    by (rule build_row_series0 [OF identity_usage_series0])
  have l: "length (points series0) = 2 \<and> microsecond (start_time (interval (points series0 ! 0))) = 250000"
    by (simp add: series0_def point0_def t0_def)
  have zero: "(0::nat) < length (points series0)" using l by simp
  from C5_points_array_of_series [OF a] zero
  have "digits_value (drop (Suc (length (strftime_seconds (start_time (interval (points series0 ! 0))))))
      (metric_timestamp (points_array (row_of_series0 ''cpu_usage'' (''api-top'', ''CronJob'', ''app'')) ! 0)))
     = microsecond (start_time (interval (points series0 ! 0)))"
    by blast
  with a l show ?thesis
    by (simp add: row_of_series0_def row_points_def)
qed

subsection \<open>The sink and the two outer loops\<close>

lemma write_to_bigquery_calls:
  "bq_calls (snd (write_to_bigquery be cfg rows w)) = bq_calls w @ [(TABLE_ID cfg, rows)]"
  by (simp add: write_to_bigquery_def Let_def logging_def split: insert_response.splits)

lemma write_to_bigquery_ts_calls:
  "ts_calls (snd (write_to_bigquery be cfg rows w)) = ts_calls w"
  by (simp add: write_to_bigquery_def Let_def logging_def split: insert_response.splits)

lemma write_to_bigquery_returns:
  "insert_rows_json be (length (bq_calls w)) (TABLE_ID cfg) rows = Insert_Returns errs \<Longrightarrow>
     fst (write_to_bigquery be cfg rows w)
       = (if errs = [] then Inr ()
          else Inl (Exception (''Encountered errors while inserting rows: '' @ str_list errs)))"
  by (simp add: write_to_bigquery_def Let_def)

lemma get_gke_metrics_bq_calls:
  "bq_calls (snd (get_gke_metrics be cfg g n q ns w)) = bq_calls w"
  by (simp add: get_gke_metrics_eq Let_def)

lemma run_pipeline_loop_append:
  "run_pipeline_loop be cfg g ns (pre @ post) w =
     (case run_pipeline_loop be cfg g ns pre w of
        (Inl e, w') \<Rightarrow> (Inl e, w')
      | (Inr u, w') \<Rightarrow> run_pipeline_loop be cfg g ns post w')"
proof (induction pre arbitrary: w)
  case Nil
  show ?case by simp
next
  case (Cons mq pre)
  obtain m q where mq: "mq = (m, q)" by (cases mq)
  show ?case
    unfolding mq
    by (simp add: Cons.IH Let_def split: prod.splits sum.splits)
qed

lemma main_loop_append:
  "main_loop be cfg g (pre @ post) w =
     (case main_loop be cfg g pre w of
        (Inl e, w') \<Rightarrow> (Inl e, w')
      | (Inr u, w') \<Rightarrow> main_loop be cfg g post w')"
  by (induction pre arbitrary: w) (simp_all split: prod.splits sum.splits)

lemma run_pipeline_loop_bq_calls:
  "prefix (bq_calls w) (bq_calls (snd (run_pipeline_loop be cfg g ns ms w)))"
proof (induction ms arbitrary: w)
  case Nil
  show ?case by simp
next
  case (Cons mq ms)
  obtain m q where mq: "mq = (m, q)" by (cases mq)
  let ?w1 = "logging INFO (''Retrieving '' @ m @ '' for namespace '' @ ns @ ''...'') w"
  obtain r w2 where f: "get_gke_metrics be cfg g m q ns ?w1 = (r, w2)"
    by (cases "get_gke_metrics be cfg g m q ns ?w1")
  then have w2: "bq_calls w2 = bq_calls w"
    using get_gke_metrics_bq_calls [of be cfg g m q ns ?w1] by (simp add: logging_def)
  show ?case
  proof (cases r)
    case (Inl e)
    with f w2 mq show ?thesis by (simp add: Let_def)
  next
    case (Inr rows)
    show ?thesis
    proof (cases "rows = []")
      case True
      have "prefix (bq_calls (logging INFO (m @ '' unavailable. Skip'') w2))
          (bq_calls (snd (run_pipeline_loop be cfg g ns ms (logging INFO (m @ '' unavailable. Skip'') w2))))"
        by (rule Cons.IH)
      with True Inr f w2 mq show ?thesis by (simp add: Let_def logging_def)
    next
      case False
      obtain r3 w3 where wr: "write_to_bigquery be cfg rows w2 = (r3, w3)"
        by (cases "write_to_bigquery be cfg rows w2")
      then have w3: "bq_calls w3 = bq_calls w @ [(TABLE_ID cfg, rows)]"
        using write_to_bigquery_calls [of be cfg rows w2] w2 by simp
      show ?thesis
      proof (cases r3)
        case (Inl e)
        with False Inr f wr w3 mq show ?thesis by (simp add: Let_def)
      next
        case (Inr u)
        have "prefix (bq_calls w3) (bq_calls (snd (run_pipeline_loop be cfg g ns ms w3)))"
          by (rule Cons.IH)
        then have "prefix (bq_calls w) (bq_calls (snd (run_pipeline_loop be cfg g ns ms w3)))"
          using w3 by (metis append_prefixD)
        with False \<open>r = Inr rows\<close> Inr f wr mq show ?thesis by (simp add: Let_def)
      qed
    qed
  qed
qed

subsection \<open>Prefixes of a pager\<close>






subsection \<open>The sample runs, evaluated\<close>

lemma fetch_one_series0:
  "controller_identity n series0 = Inr ident \<Longrightarrow>
     fetch_rows g0 n (Pager [Yield series0]) = [row_of_series0 n ident] \<and>
     fetch_error g0 n (Pager [Yield series0]) = None"
  by (simp add: fetch_rows_def fetch_error_def rows_before_error_def first_error_def
      event_error_def event_rows_def build_row_series0)

lemma fetch_nothing: "fetch_rows g n (Pager []) = [] \<and> fetch_error g n (Pager []) = None"
  by (simp add: fetch_rows_def fetch_error_def rows_before_error_def first_error_def)

lemma discover_rejecting:
  "get_namespaces backend_rejecting config0 1685624400 1685624401 world0
     = (Inr [''billing'', ''search''], world_discovered)"
  by (simp add: get_namespaces_eq Let_def backend_rejecting_def scripted_def world0_def
      world_discovered_def getitem_def series0_def series_search_def set_add_def fetch_log_def
      discovery_error_def namespace_error_def)

lemma fetch_rejecting:
  "get_gke_metrics backend_rejecting config0 g0 ''cpu_usage'' query0 ''billing''
      (logging INFO ''Retrieving cpu_usage for namespace billing...'' world_discovered)
     = (Inr [row_usage], world_fetched)"
proof -
  have "fst (get_gke_metrics backend_rejecting config0 g0 ''cpu_usage'' query0 ''billing''
      (logging INFO ''Retrieving cpu_usage for namespace billing...'' world_discovered))
     = Inr [row_usage]"
    by (simp add: get_gke_metrics_eq Let_def backend_rejecting_def scripted_def
        world_discovered_def logging_def row_usage_def
        fetch_one_series0 [OF identity_usage_series0])
  then show ?thesis by (simp add: world_fetched_def prod_eq_iff)
qed

lemma world_fetched_calls:
  "bq_calls world_fetched = [] \<and>
   ts_calls world_fetched
     = [namespaces_request config0 1685624400 1685624401, metrics_request config0 g0 query0 ''billing'']"
  by (simp add: world_fetched_def get_gke_metrics_eq Let_def logging_def world_discovered_def)

lemma insert_rejecting:
  "insert_rows_json backend_rejecting (length (bq_calls world_fetched)) (TABLE_ID config0) [row_usage]
     = Insert_Returns [''row 0: no such field'']"
  by (simp add: backend_rejecting_def scripted_def)

lemma write_rejecting:
  "fst (write_to_bigquery backend_rejecting config0 [row_usage] world_fetched)
     = Inl (Exception ''Encountered errors while inserting rows: [row 0: no such field]'') \<and>
   ts_calls (snd (write_to_bigquery backend_rejecting config0 [row_usage] world_fetched))
     = [namespaces_request config0 1685624400 1685624401, metrics_request config0 g0 query0 ''billing''] \<and>
   bq_calls (snd (write_to_bigquery backend_rejecting config0 [row_usage] world_fetched))
     = [(''demo.metrics.samples'', [row_usage])]"
  using write_to_bigquery_returns [OF insert_rejecting]
  by (simp add: write_to_bigquery_calls write_to_bigquery_ts_calls world_fetched_calls str_list_def
      config0_def)

lemma pipeline_rejecting:
  "run_pipeline backend_rejecting config0 g0 ''billing'' world_discovered
     = write_to_bigquery backend_rejecting config0 [row_usage] world_fetched"
proof -
  obtain w3 where w3: "write_to_bigquery backend_rejecting config0 [row_usage] world_fetched
     = (Inl (Exception ''Encountered errors while inserting rows: [row 0: no such field]''), w3)"
    using write_rejecting
    by (cases "write_to_bigquery backend_rejecting config0 [row_usage] world_fetched") simp
  have q: "MQL_QUERY config0 = [(''cpu_usage'', query0), (''cpu_vpa_recommendation'', query1)]"
    by (simp add: config0_def)
  show ?thesis
    unfolding run_pipeline_def q using fetch_rejecting w3
    by (simp add: Let_def)
qed

lemma main_loop_rejecting_other_order:
  "fst (main_loop backend_rejecting config0 g0 [''search'', ''billing''] world_discovered)
     = Inl (Exception ''Encountered errors while inserting rows: [row 0: no such field]'') \<and>
   ts_calls (snd (main_loop backend_rejecting config0 g0 [''search'', ''billing''] world_discovered))
     = [namespaces_request config0 1685624400 1685624401, metrics_request config0 g0 query0 ''search'']"
proof -
  have q: "MQL_QUERY config0 = [(''cpu_usage'', query0), (''cpu_vpa_recommendation'', query1)]"
    by (simp add: config0_def)
  show ?thesis
    unfolding main_loop.simps run_pipeline_def q
    by (simp add: get_gke_metrics_eq Let_def backend_rejecting_def scripted_def
        world_discovered_def logging_def fetch_one_series0 [OF identity_usage_series0]
        write_to_bigquery_def str_list_def)
qed

section \<open>The claims, continued\<close>






text \<open>
  C8. The claim: for every batch of rows that is not empty the sink makes one insertion call, and
  raises an error carrying the backend's detail exactly when the backend reports a list of row
  errors that is not empty; such an error aborts the remaining metrics of the current namespace
  only, and the runs over the other namespaces go on unaffected.

  The last part fails: nothing catches the exception, neither \<^verbatim>\<open>run_pipeline\<close> nor the loop
  over the namespaces, so it ends the program. With a discovery that finds \<^verbatim>\<open>billing\<close> and
  \<^verbatim>\<open>search\<close> and a sink that rejects a row, the program ends with the exception after the
  first metric of \<^verbatim>\<open>billing\<close>, and no request is ever made for \<^verbatim>\<open>search\<close>. (Were the set
  enumerated in the other order, it is \<^verbatim>\<open>billing\<close> that would never be run: the last two lines.)
\<close>

theorem C8_later_namespaces_counterexample:
  "fst (get_namespaces backend_rejecting config0 1685624400 1685624401 world0)
     = Inr [''billing'', ''search''] \<and>
   fst (main backend_rejecting config0 g0 1685624400 1685624401 world0)
     = Inl (Exception ''Encountered errors while inserting rows: [row 0: no such field]'') \<and>
   ts_calls (snd (main backend_rejecting config0 g0 1685624400 1685624401 world0))
     = [namespaces_request config0 1685624400 1685624401, metrics_request config0 g0 query0 ''billing''] \<and>
   fst (main_loop backend_rejecting config0 g0 [''search'', ''billing''] world_discovered)
     = Inl (Exception ''Encountered errors while inserting rows: [row 0: no such field]'') \<and>
   ts_calls (snd (main_loop backend_rejecting config0 g0 [''search'', ''billing''] world_discovered))
     = [namespaces_request config0 1685624400 1685624401, metrics_request config0 g0 query0 ''search'']"
proof -
  obtain w3 where w3: "write_to_bigquery backend_rejecting config0 [row_usage] world_fetched
     = (Inl (Exception ''Encountered errors while inserting rows: [row 0: no such field]''), w3)"
    using write_rejecting
    by (cases "write_to_bigquery backend_rejecting config0 [row_usage] world_fetched") simp
  have "main backend_rejecting config0 g0 1685624400 1685624401 world0
      = write_to_bigquery backend_rejecting config0 [row_usage] world_fetched"
    using w3 by (simp add: main_def discover_rejecting pipeline_rejecting)
  with write_rejecting discover_rejecting main_loop_rejecting_other_order show ?thesis by simp
qed

text \<open>
  C8, amended. For every batch of rows that is not empty the sink makes one insertion call, and
  it raises exactly when the backend reports a list of row errors that is not empty, with a
  message that carries the list. The exception is caught nowhere: the run of the current
  namespace ends with it, in the state the failed insertion left (no later metric of the
  namespace is fetched or written), and so does the loop over the namespaces (no later namespace
  is run); the insertions made before, for earlier metrics and earlier namespaces, stay as they
  were.
\<close>

theorem C8_sink_error_ends_the_run:
  assumes catalog: "MQL_QUERY cfg = pre @ (m, q) # post"
    and before: "main_loop be cfg g before w0 = (Inr (), w)"
    and earlier: "run_pipeline_loop be cfg g ns pre w = (Inr (), w1)"
    and fetch: "get_gke_metrics be cfg g m q ns
          (logging INFO (''Retrieving '' @ m @ '' for namespace '' @ ns @ ''...'') w1) = (Inr rows, w2)"
    and nonempty: "rows \<noteq> []"
    and sink: "insert_rows_json be (length (bq_calls w2)) (TABLE_ID cfg) rows = Insert_Returns errs"
  shows "bq_calls (snd (write_to_bigquery be cfg rows w2)) = bq_calls w2 @ [(TABLE_ID cfg, rows)] \<and>
         ((\<exists>e. fst (write_to_bigquery be cfg rows w2) = Inl e) \<longleftrightarrow> errs \<noteq> []) \<and>
         (errs \<noteq> [] \<longrightarrow>
            fst (write_to_bigquery be cfg rows w2)
              = Inl (Exception (''Encountered errors while inserting rows: '' @ str_list errs)) \<and>
            run_pipeline be cfg g ns w = write_to_bigquery be cfg rows w2 \<and>
            main_loop be cfg g (before @ ns # after) w0 = write_to_bigquery be cfg rows w2 \<and>
            prefix (bq_calls w) (bq_calls (snd (write_to_bigquery be cfg rows w2))))"
proof -
  have one_call: "bq_calls (snd (write_to_bigquery be cfg rows w2)) = bq_calls w2 @ [(TABLE_ID cfg, rows)]"
    by (rule write_to_bigquery_calls)
  have result: "fst (write_to_bigquery be cfg rows w2)
       = (if errs = [] then Inr ()
          else Inl (Exception (''Encountered errors while inserting rows: '' @ str_list errs)))"
    by (rule write_to_bigquery_returns [OF sink])
  then have iff: "(\<exists>e. fst (write_to_bigquery be cfg rows w2) = Inl e) \<longleftrightarrow> errs \<noteq> []"
    by simp
  have aborted: "fst (write_to_bigquery be cfg rows w2)
              = Inl (Exception (''Encountered errors while inserting rows: '' @ str_list errs)) \<and>
            run_pipeline be cfg g ns w = write_to_bigquery be cfg rows w2 \<and>
            main_loop be cfg g (before @ ns # after) w0 = write_to_bigquery be cfg rows w2 \<and>
            prefix (bq_calls w) (bq_calls (snd (write_to_bigquery be cfg rows w2)))"
    if errs: "errs \<noteq> []"
  proof -
    obtain w3 where w3: "write_to_bigquery be cfg rows w2
        = (Inl (Exception (''Encountered errors while inserting rows: '' @ str_list errs)), w3)"
      using result errs by (cases "write_to_bigquery be cfg rows w2") simp
    have loop: "run_pipeline_loop be cfg g ns (pre @ (m, q) # post) w
        = (Inl (Exception (''Encountered errors while inserting rows: '' @ str_list errs)), w3)"
      using earlier fetch nonempty w3 by (simp add: run_pipeline_loop_append Let_def)
    then have run: "run_pipeline be cfg g ns w = write_to_bigquery be cfg rows w2"
      using catalog w3 by (simp add: run_pipeline_def)
    then have driver: "main_loop be cfg g (before @ ns # after) w0 = write_to_bigquery be cfg rows w2"
      using before w3 by (simp add: main_loop_append)
    have "prefix (bq_calls w) (bq_calls w1)"
      using run_pipeline_loop_bq_calls [of w be cfg g ns pre] earlier by simp
    moreover have "bq_calls w2 = bq_calls w1"
      using get_gke_metrics_bq_calls
        [of be cfg g m q ns "logging INFO (''Retrieving '' @ m @ '' for namespace '' @ ns @ ''...'') w1"]
        fetch
      by (simp add: logging_def)
    ultimately have "prefix (bq_calls w) (bq_calls (snd (write_to_bigquery be cfg rows w2)))"
      using one_call by (auto simp: prefix_def)
    with w3 run driver show ?thesis by simp
  qed
  from one_call iff aborted show ?thesis by blast
qed

text \<open>The theorem at the first metric of the first of the two namespaces.\<close>

theorem C8_sink_error_ends_the_run_witness:
  "insert_rows_json backend_rejecting (length (bq_calls world_fetched)) (TABLE_ID config0) [row_usage]
     = Insert_Returns [''row 0: no such field''] \<and>
   bq_calls (snd (write_to_bigquery backend_rejecting config0 [row_usage] world_fetched))
     = bq_calls world_fetched @ [(TABLE_ID config0, [row_usage])] \<and>
   fst (write_to_bigquery backend_rejecting config0 [row_usage] world_fetched)
     = Inl (Exception (''Encountered errors while inserting rows: '' @ str_list [''row 0: no such field''])) \<and>
   run_pipeline backend_rejecting config0 g0 ''billing'' world_discovered
     = write_to_bigquery backend_rejecting config0 [row_usage] world_fetched \<and>
   main_loop backend_rejecting config0 g0 ([] @ ''billing'' # [''search'']) world_discovered
     = write_to_bigquery backend_rejecting config0 [row_usage] world_fetched \<and>
   ts_calls (snd (write_to_bigquery backend_rejecting config0 [row_usage] world_fetched))
     = [namespaces_request config0 1685624400 1685624401, metrics_request config0 g0 query0 ''billing'']"
proof -
  have catalog: "MQL_QUERY config0 = [] @ (''cpu_usage'', query0) # [(''cpu_vpa_recommendation'', query1)]"
    by (simp add: config0_def)
  have before: "main_loop backend_rejecting config0 g0 [] world_discovered = (Inr (), world_discovered)"
    by simp
  have earlier: "run_pipeline_loop backend_rejecting config0 g0 ''billing'' [] world_discovered
      = (Inr (), world_discovered)"
    by simp
  have fetch: "get_gke_metrics backend_rejecting config0 g0 ''cpu_usage'' query0 ''billing''
      (logging INFO (''Retrieving '' @ ''cpu_usage'' @ '' for namespace '' @ ''billing'' @ ''...'')
         world_discovered)
     = (Inr [row_usage], world_fetched)"
    using fetch_rejecting by simp
  have nonempty: "[row_usage] \<noteq> []" by simp
  have errs: "[''row 0: no such field''] \<noteq> []" by simp
  note th = C8_sink_error_ends_the_run [OF catalog before earlier fetch nonempty insert_rejecting,
      of "[''search'']"]
  from th errs write_rejecting insert_rejecting show ?thesis by blast
qed

text \<open>
  C9. For every metric of the catalog whose fetch returns no rows, \<^verbatim>\<open>run_pipeline\<close> does not
  call the sink for that metric and goes on with the next metric in the order of the catalog:
  the loop continues with the rest of the catalog from a state whose insertions are those made
  before the metric.
\<close>

theorem C9_empty_fetch_skips_the_sink:
  assumes "run_pipeline_loop be cfg g ns pre w = (Inr (), w1)"
    and "get_gke_metrics be cfg g m q ns
           (logging INFO (''Retrieving '' @ m @ '' for namespace '' @ ns @ ''...'') w1) = (Inr [], w2)"
  shows "run_pipeline_loop be cfg g ns (pre @ (m, q) # post) w
           = run_pipeline_loop be cfg g ns post (logging INFO (m @ '' unavailable. Skip'') w2) \<and>
         bq_calls (logging INFO (m @ '' unavailable. Skip'') w2) = bq_calls w1"
proof -
  have "bq_calls w2 = bq_calls (logging INFO (''Retrieving '' @ m @ '' for namespace '' @ ns @ ''...'') w1)"
    using get_gke_metrics_bq_calls
      [of be cfg g m q ns "logging INFO (''Retrieving '' @ m @ '' for namespace '' @ ns @ ''...'') w1"]
      assms(2)
    by simp
  then have "bq_calls (logging INFO (m @ '' unavailable. Skip'') w2) = bq_calls w1"
    by (simp add: logging_def)
  moreover have "run_pipeline_loop be cfg g ns (pre @ (m, q) # post) w
           = run_pipeline_loop be cfg g ns post (logging INFO (m @ '' unavailable. Skip'') w2)"
    using assms by (simp add: run_pipeline_loop_append Let_def)
  ultimately show ?thesis by blast
qed

text \<open>The theorem at a catalog of two metrics, the first of which finds nothing: the second is
  fetched and written.\<close>

theorem C9_empty_fetch_skips_the_sink_witness:
  "run_pipeline_loop backend_quiet_first config0 g0 ''billing'' [] world0 = (Inr (), world0) \<and>
   fst (get_gke_metrics backend_quiet_first config0 g0 ''cpu_usage'' query0 ''billing''
          (logging INFO (''Retrieving '' @ ''cpu_usage'' @ '' for namespace '' @ ''billing'' @ ''...'') world0))
     = Inr [] \<and>
   run_pipeline_loop backend_quiet_first config0 g0 ''billing''
       ([] @ (''cpu_usage'', query0) # [(''cpu_vpa_recommendation'', query1)]) world0
     = run_pipeline_loop backend_quiet_first config0 g0 ''billing'' [(''cpu_vpa_recommendation'', query1)]
         (logging INFO (''cpu_usage'' @ '' unavailable. Skip'')
            (snd (get_gke_metrics backend_quiet_first config0 g0 ''cpu_usage'' query0 ''billing''
               (logging INFO (''Retrieving '' @ ''cpu_usage'' @ '' for namespace '' @ ''billing'' @ ''...'')
                  world0)))) \<and>
   bq_calls (logging INFO (''cpu_usage'' @ '' unavailable. Skip'')
            (snd (get_gke_metrics backend_quiet_first config0 g0 ''cpu_usage'' query0 ''billing''
               (logging INFO (''Retrieving '' @ ''cpu_usage'' @ '' for namespace '' @ ''billing'' @ ''...'')
                  world0)))) = [] \<and>
   bq_calls (snd (run_pipeline_loop backend_quiet_first config0 g0 ''billing''
       ([] @ (''cpu_usage'', query0) # [(''cpu_vpa_recommendation'', query1)]) world0))
     = [(''demo.metrics.samples'',
         [row_of_series0 ''cpu_vpa_recommendation'' (''api'', ''Deployment'', ''sidecar'')])]"
proof -
  let ?w1 = "logging INFO (''Retrieving '' @ ''cpu_usage'' @ '' for namespace '' @ ''billing'' @ ''...'') world0"
  let ?w2 = "snd (get_gke_metrics backend_quiet_first config0 g0 ''cpu_usage'' query0 ''billing'' ?w1)"
  have earlier: "run_pipeline_loop backend_quiet_first config0 g0 ''billing'' [] world0 = (Inr (), world0)"
    by simp
  have none: "fst (get_gke_metrics backend_quiet_first config0 g0 ''cpu_usage'' query0 ''billing'' ?w1)
      = Inr []"
    by (simp add: get_gke_metrics_eq Let_def backend_quiet_first_def scripted_def world0_def
        logging_def fetch_nothing)
  then have fetch: "get_gke_metrics backend_quiet_first config0 g0 ''cpu_usage'' query0 ''billing'' ?w1
      = (Inr [], ?w2)"
    by (simp add: prod_eq_iff)
  note th = C9_empty_fetch_skips_the_sink [OF earlier fetch, of "[(''cpu_vpa_recommendation'', query1)]"]
  have w2: "ts_calls ?w2 = [metrics_request config0 g0 query0 ''billing''] \<and> bq_calls ?w2 = []"
    by (simp add: get_gke_metrics_eq Let_def logging_def world0_def)
  have rest: "bq_calls (snd (run_pipeline_loop backend_quiet_first config0 g0 ''billing''
        [(''cpu_vpa_recommendation'', query1)] (logging INFO (''cpu_usage'' @ '' unavailable. Skip'') ?w2)))
     = [(''demo.metrics.samples'',
         [row_of_series0 ''cpu_vpa_recommendation'' (''api'', ''Deployment'', ''sidecar'')])]"
    using w2
    by (simp add: get_gke_metrics_eq [of _ _ _ "''cpu_vpa_recommendation''"] Let_def
        backend_quiet_first_def scripted_def logging_def
        fetch_one_series0 [OF identity_vpa_series0] write_to_bigquery_def config0_def)
  from th earlier none rest w2 show ?thesis by (simp add: logging_def)
qed

text \<open>
  C10. For every descriptor and namespace, the request \<^verbatim>\<open>get_gke_metrics\<close> sends (the only one
  it sends, and the only one whose answer it reads) has the filter
  \<^verbatim>\<open>metric.type = "\<close> + the descriptor's metric + \<^verbatim>\<open>" AND resource.label.namespace_name = \<close> +
  the namespace: the metric between double quotes, the namespace as it is, without quotes, so
  that whatever the namespace string goes on with is text of the filter. (Which namespace
  strings the backend reads as one token of its filter language is not a matter of this program.)
\<close>

theorem C10_filter_string:
  "ts_calls (snd (get_gke_metrics be cfg g n q ns w)) = ts_calls w @ [metrics_request cfg g q ns] \<and>
   get_gke_metrics be cfg g n q ns w
     = get_gke_metrics
         (be\<lparr>list_time_series :=
               (\<lambda>k req. if req = metrics_request cfg g q ns then list_time_series be k req
                         else Call_Raises (Exception ''another request''))\<rparr>)
         cfg g n q ns w \<and>
   req_filter (metrics_request cfg g q ns)
     = ''metric.type = '' @ [CHR 0x22] @ metric q @ [CHR 0x22] @
       '' AND resource.label.namespace_name = '' @ ns \<and>
   req_filter (metrics_request cfg g q (ns @ rest)) = req_filter (metrics_request cfg g q ns) @ rest"
  by (simp add: get_gke_metrics_eq Let_def metrics_request_def)

text \<open>The theorem at the namespace \<^verbatim>\<open>billing\<close>.\<close>

theorem C10_filter_string_witness:
  "req_filter (metrics_request config0 g0 query0 ''billing'')
     = ''metric.type = '' @ [CHR 0x22] @ ''kubernetes.io/container/cpu/core_usage_time'' @ [CHR 0x22] @
       '' AND resource.label.namespace_name = billing'' \<and>
   map req_filter (ts_calls (snd (get_gke_metrics backend_partial config0 g0 ''cpu_usage'' query0
                                    ''billing'' world0)))
     = [''metric.type = '' @ [CHR 0x22] @ ''kubernetes.io/container/cpu/core_usage_time'' @ [CHR 0x22] @
        '' AND resource.label.namespace_name = billing'']"
proof -
  note th = C10_filter_string [of backend_partial config0 g0 "''cpu_usage''" query0 "''billing''" world0]
  have calls: "ts_calls (snd (get_gke_metrics backend_partial config0 g0 ''cpu_usage'' query0
                                ''billing'' world0))
      = [metrics_request config0 g0 query0 ''billing'']"
    using th [THEN conjunct1] by (simp add: world0_def)
  have f: "req_filter (metrics_request config0 g0 query0 ''billing'')
     = ''metric.type = '' @ [CHR 0x22] @ ''kubernetes.io/container/cpu/core_usage_time'' @ [CHR 0x22] @
       '' AND resource.label.namespace_name = billing''"
    using th [THEN conjunct2, THEN conjunct2, THEN conjunct1] by (simp add: query0_def)
  from calls f show ?thesis by simp
qed

end
